theory Spec2Isabelle
  imports Complex_Main "HOL-Library.Log_Nat"
begin

section \<open>Data model\<close>

text \<open>
  The trading advisor works on pandas data frames of daily bars. A frame is modelled
  column-wise: the date index, the \<open>Close\<close> column and the moving-average columns
  \<open>SMA_w\<close>, keyed by their window \<open>w\<close> (column \<open>SMA_20\<close> is \<open>SMA df 20\<close>; a
  column that was never added is \<open>None\<close>). Calendar dates are day ordinals, so that the
  difference of two dates in whole days is integer subtraction. Prices are real numbers.
  The moving averages, the return and the trend strength are computed with exact
  arithmetic; the risk levels of a BUY signal are computed as the program computes
  them, every operation rounded to the nearest double (\<open>fl\<close> below). A moving
  average that pandas leaves undefined (NaN) is \<open>None\<close>, so \<open>pd.isna x\<close> is \<open>x = None\<close>.
\<close>

type_synonym date = int

record dataframe =
  index :: "date list"
  Close :: "real list"
  SMA :: "nat \<rightharpoonup> real option list"

text \<open>
  Every column of a pandas frame has the length of its index; \<open>wf_frame\<close> states this
  for the columns the program reads.
\<close>

definition wf_frame :: "dataframe \<Rightarrow> bool" where
  "wf_frame df =
     (length (Close df) = length (index df) \<and>
      (case SMA df 20 of None \<Rightarrow> True | Some c \<Rightarrow> length c = length (index df)) \<and>
      (case SMA df 50 of None \<Rightarrow> True | Some c \<Rightarrow> length c = length (index df)))"

text \<open>
  Exceptions a call can end with. Dividing by a zero float has no real-number result:
  Python floats raise \<open>ZeroDivisionError\<close> and numpy floats give an infinity or NaN; the
  model reports both as \<open>ZeroDivisionError\<close>.
\<close>

datatype error = TypeError | ZeroDivisionError | IndexError | HTTP404 | HTTP500

section \<open>Double precision\<close>

text \<open>
  A Python float is an IEEE 754 double: a real number \<open>m * 2 ^ e\<close> with an integer
  \<open>m\<close> of at most 53 bits and \<open>e \<ge> -1074\<close>. Every arithmetic operation yields the
  exact result rounded to the nearest double, ties to the even significand; \<open>fl\<close> is
  this rounding. \<open>ilog2 x\<close> is the exponent of the leading bit of a positive \<open>x\<close>. A
  float literal such as \<open>0.10\<close> denotes \<open>fl 0.10\<close>. Results beyond the largest double
  (the infinities) are not represented.
\<close>

definition round_half_even :: "real \<Rightarrow> int" where
  "round_half_even x =
     (let r = \<lfloor>x\<rfloor>; d = x - of_int r
      in if d < 1 / 2 then r else if d > 1 / 2 then r + 1 else if even r then r else r + 1)"

definition ilog2 :: "real \<Rightarrow> int" where
  "ilog2 x =
     (if 1 \<le> x then bitlen \<lfloor>x\<rfloor> - 1
      else let k = bitlen \<lfloor>1 / x\<rfloor>
           in if x = 2 powi (1 - k) then 1 - k else - k)"

definition fl :: "real \<Rightarrow> real" where
  "fl x =
     (if x = 0 then 0
      else let a = \<bar>x\<bar>;
               e = max (ilog2 a - 52) (- 1074);
               m = round_half_even (a / 2 powi e)
           in sgn x * of_int m * 2 powi e)"

section \<open>Moving averages (\<open>indicators/simple_indicators.py\<close>)\<close>

text \<open>
  \<open>Series.rolling(window=w).mean()\<close>: pandas slides a window over the column that holds
  the last \<open>w\<close> observations at most, and yields the mean of the window once it holds
  \<open>w\<close> observations (\<open>min_periods\<close> defaults to the window), NaN before. The window is
  the second argument of \<open>rolling_window\<close>.
\<close>

fun rolling_window :: "nat \<Rightarrow> real list \<Rightarrow> real list \<Rightarrow> real option list" where
  "rolling_window w win [] = []"
| "rolling_window w win (x # xs) =
     (let win' = (if length win < w then win @ [x] else tl (win @ [x]))
      in (if 0 < w \<and> length win' = w then Some (sum_list win' / real w) else None)
           # rolling_window w win' xs)"

definition rolling_mean :: "nat \<Rightarrow> real list \<Rightarrow> real option list" where
  "rolling_mean w xs = rolling_window w [] xs"

text \<open>
  \<open>add_moving_averages\<close>: \<open>None\<close> for missing or empty data, otherwise a copy of the
  data with the columns \<open>SMA_{short_window}\<close> and \<open>SMA_{long_window}\<close> assigned in this
  order.
\<close>

definition add_moving_averages :: "dataframe option \<Rightarrow> nat \<Rightarrow> nat \<Rightarrow> dataframe option" where
  "add_moving_averages data short_window long_window =
     (case data of
        None \<Rightarrow> None
      | Some d \<Rightarrow>
          if index d = [] then None
          else
            let result = d;
                result = result\<lparr>SMA := (SMA result)(short_window \<mapsto> rolling_mean short_window (Close result))\<rparr>;
                result = result\<lparr>SMA := (SMA result)(long_window \<mapsto> rolling_mean long_window (Close result))\<rparr>
            in Some result)"

section \<open>Signals (\<open>signals/simple_signals.py\<close>)\<close>

text \<open>
  A signal is the dictionary the generator builds; a SELL signal carries \<open>None\<close> in its
  three risk fields. The kind of a signal is the string under the key \<open>type\<close>. The
  texts of the program start with a pictograph, which the model leaves out.
\<close>

record signal =
  date :: date
  symbol :: string
  type :: string
  price :: real
  stop_loss :: "real option"
  take_profit :: "real option"
  risk_reward_ratio :: "real option"
  reason :: string

record SimpleSignalGenerator =
  stop_loss_pct :: real
  take_profit_pct :: real

text \<open>
  \<open>_create_buy_signal\<close>. The price and the two percentages are floats, so each of the
  five operations rounds, and the quotient in the dictionary raises
  \<open>ZeroDivisionError\<close> for a zero stop-loss percentage.
\<close>

definition create_buy_signal :: "SimpleSignalGenerator \<Rightarrow> date \<Rightarrow> real \<Rightarrow> string \<Rightarrow> error + signal" where
  "create_buy_signal self d p symb =
     (let sl = fl (p * fl (1 - stop_loss_pct self));
          tp = fl (p * fl (1 + take_profit_pct self))
      in if stop_loss_pct self = 0 then Inl ZeroDivisionError
         else Inr \<lparr>date = d, symbol = symb, type = ''BUY'', price = p,
                   stop_loss = Some sl, take_profit = Some tp,
                   risk_reward_ratio = Some (fl (take_profit_pct self / stop_loss_pct self)),
                   reason = ''SMA 20 crossed above SMA 50''\<rparr>)"

definition create_sell_signal :: "SimpleSignalGenerator \<Rightarrow> date \<Rightarrow> real \<Rightarrow> string \<Rightarrow> signal" where
  "create_sell_signal self d p symb =
     \<lparr>date = d, symbol = symb, type = ''SELL'', price = p,
      stop_loss = None, take_profit = None, risk_reward_ratio = None,
      reason = ''SMA 20 crossed below SMA 50''\<rparr>"

text \<open>
  A \<open>for\<close> loop over a list of indices whose body may raise: the first exception ends
  the loop.
\<close>

fun for_loop :: "(nat \<Rightarrow> 's \<Rightarrow> error + 's) \<Rightarrow> nat list \<Rightarrow> 's \<Rightarrow> error + 's" where
  "for_loop body [] s = Inr s"
| "for_loop body (i # is) s =
     (case body i s of Inl e \<Rightarrow> Inl e | Inr s' \<Rightarrow> for_loop body is s')"

text \<open>
  The body of the loop of \<open>find_crossover_signals\<close> at index \<open>i\<close>, on the columns
  \<open>SMA_20\<close> and \<open>SMA_50\<close>: it skips the day when one of the four averages is NaN, and
  tests for a BUY before it tests for a SELL.
\<close>

definition crossover_body ::
  "SimpleSignalGenerator \<Rightarrow> dataframe \<Rightarrow> real option list \<Rightarrow> real option list \<Rightarrow> string \<Rightarrow>
   nat \<Rightarrow> signal list \<Rightarrow> error + signal list" where
  "crossover_body self df SMA_20 SMA_50 symb i signals =
     (let current_date = index df ! i;
          current_price = Close df ! i
      in case (SMA_20 ! i, SMA_50 ! i, SMA_20 ! (i - 1), SMA_50 ! (i - 1)) of
           (Some sma_20_today, Some sma_50_today, Some sma_20_yesterday, Some sma_50_yesterday) \<Rightarrow>
             if sma_20_yesterday \<le> sma_50_yesterday \<and> sma_20_today > sma_50_today then
               (case create_buy_signal self current_date current_price symb of
                  Inl e \<Rightarrow> Inl e
                | Inr s \<Rightarrow> Inr (signals @ [s]))
             else if sma_20_yesterday \<ge> sma_50_yesterday \<and> sma_20_today < sma_50_today then
               Inr (signals @ [create_sell_signal self current_date current_price symb])
             else Inr signals
         | _ \<Rightarrow> Inr signals)"

definition find_crossover_signals ::
  "SimpleSignalGenerator \<Rightarrow> dataframe option \<Rightarrow> string \<Rightarrow> error + signal list" where
  "find_crossover_signals self data_with_indicators symb =
     (case data_with_indicators of
        None \<Rightarrow> Inr []
      | Some df \<Rightarrow>
          if length (index df) < 51 then Inr []
          else
            (case (SMA df 20, SMA df 50) of
               (Some SMA_20, Some SMA_50) \<Rightarrow>
                 for_loop (crossover_body self df SMA_20 SMA_50 symb) [1..<length (index df)] []
             | _ \<Rightarrow> Inr []))"

text \<open>
  Two notions for the proofs. \<open>emitted_at\<close> is what one round of the loop appends to an
  empty list (nothing when the round raises); \<open>made_by\<close> holds of the signals that one
  of the two constructors of the generator returns.
\<close>

definition emitted_at ::
  "SimpleSignalGenerator \<Rightarrow> dataframe \<Rightarrow> real option list \<Rightarrow> real option list \<Rightarrow> string \<Rightarrow>
   nat \<Rightarrow> signal list" where
  "emitted_at self df fast slow symb i =
     (case crossover_body self df fast slow symb i [] of Inl e \<Rightarrow> [] | Inr out \<Rightarrow> out)"

definition made_by :: "SimpleSignalGenerator \<Rightarrow> string \<Rightarrow> signal \<Rightarrow> bool" where
  "made_by self symb s \<longleftrightarrow>
     (\<exists>d p. create_buy_signal self d p symb = Inr s) \<or> (\<exists>d p. s = create_sell_signal self d p symb)"

definition get_latest_signal :: "signal list \<Rightarrow> signal option" where
  "get_latest_signal signals = (if signals = [] then None else Some (last signals))"

text \<open>
  \<open>analyze_signal_performance\<close> returns a dictionary: the error dictionary for a signal
  that is not a BUY, the performance report otherwise. It reads the date of today from
  the wall clock (\<open>datetime.now()\<close>); the model takes the clock reading as the argument
  \<open>now\<close>. The report's copies of the signal's risk fields are named \<open>report_\<close>.
\<close>

record performance =
  status :: string
  outcome :: string
  entry_price :: real
  current_price :: real
  current_return_pct :: real
  report_stop_loss :: "real option"
  report_take_profit :: "real option"
  days_holding :: int
  report_risk_reward_ratio :: "real option"

datatype performance_result = ErrorDict string | Report performance

definition analyze_signal_performance ::
  "SimpleSignalGenerator \<Rightarrow> signal \<Rightarrow> real \<Rightarrow> date \<Rightarrow> error + performance_result" where
  "analyze_signal_performance self sig cur now =
     (if type sig \<noteq> ''BUY'' then Inr (ErrorDict ''Performance analysis only for BUY signals'')
      else if price sig = 0 then Inl ZeroDivisionError
      else
        let ret = ((cur - price sig) / price sig) * 100;
            days_since = now - date sig;
            report = (\<lambda>st oc.
              Inr (Report \<lparr>status = st, outcome = oc, entry_price = price sig,
                            current_price = cur, current_return_pct = ret,
                            report_stop_loss = stop_loss sig,
                            report_take_profit = take_profit sig,
                            days_holding = days_since,
                            report_risk_reward_ratio = risk_reward_ratio sig\<rparr>))
        in case take_profit sig of
             None \<Rightarrow> Inl TypeError
           | Some tp \<Rightarrow>
               if cur \<ge> tp then report ''TARGET HIT'' ''WIN''
               else
                 (case stop_loss sig of
                    None \<Rightarrow> Inl TypeError
                  | Some sl \<Rightarrow>
                      if cur \<le> sl then report ''STOPPED OUT'' ''LOSS''
                      else report ''ACTIVE'' ''PENDING''))"

text \<open>
  \<open>get_current_recommendation\<close>. The argument \<open>current_ma_status\<close> is a dictionary
  from keys to Python values: \<open>None\<close>, a float that is NaN, or a float with a value.
  \<open>dict.get\<close> yields its default for a missing key, which is \<open>None\<close> for \<open>sma_20\<close>
  and \<open>0\<close> for \<open>sma_50\<close>. The comparison \<open>>\<close> raises \<open>TypeError\<close> as soon as one
  side is \<open>None\<close>, and is false as soon as one side is NaN. The date of today is read
  from the wall clock, the argument \<open>now\<close> of the model.
\<close>

datatype pyvalue = PyNone | NaN | Float real

definition dict_get :: "(string \<rightharpoonup> pyvalue) \<Rightarrow> string \<Rightarrow> pyvalue \<Rightarrow> pyvalue" where
  "dict_get d k dflt = (case d k of None \<Rightarrow> dflt | Some v \<Rightarrow> v)"

fun py_gt :: "pyvalue \<Rightarrow> pyvalue \<Rightarrow> error + bool" where
  "py_gt PyNone _ = Inl TypeError"
| "py_gt _ PyNone = Inl TypeError"
| "py_gt (Float a) (Float b) = Inr (a > b)"
| "py_gt _ _ = Inr False"

definition get_current_recommendation ::
  "SimpleSignalGenerator \<Rightarrow> signal list \<Rightarrow> (string \<rightharpoonup> pyvalue) \<Rightarrow> date \<Rightarrow> error + string" where
  "get_current_recommendation self signals current_ma_status now =
     (case get_latest_signal signals of
        None \<Rightarrow>
          (case py_gt (dict_get current_ma_status ''sma_20'' PyNone)
                      (dict_get current_ma_status ''sma_50'' (Float 0)) of
             Inl e \<Rightarrow> Inl e
           | Inr bullish \<Rightarrow>
               if bullish then Inr ''WATCH FOR PULLBACK - Currently bullish, wait for better entry''
               else Inr ''STAY AWAY - Currently bearish trend'')
      | Some latest_signal \<Rightarrow>
          let days_since = now - date latest_signal
          in if type latest_signal = ''BUY'' then
               (if days_since \<le> 5 then Inr ''RECENT BUY SIGNAL - Consider entry or monitor position''
                else Inr ''OLD BUY SIGNAL - Reassess current conditions'')
             else if type latest_signal = ''SELL'' then
               (if days_since \<le> 5 then Inr ''RECENT SELL SIGNAL - Avoid buying, consider exit''
                else Inr ''OLD SELL SIGNAL - Monitor for trend change'')
             else Inr ''UNCLEAR - Review signals and current trend'')"

text \<open>
  The status dictionary that \<open>display_full_analysis\<close> of \<open>main.py\<close> builds from the last
  row of the frame: both keys are present, with NaN for an undefined average.
\<close>

definition float_of :: "real option \<Rightarrow> pyvalue" where
  "float_of v = (case v of None \<Rightarrow> NaN | Some x \<Rightarrow> Float x)"

definition ma_status :: "real option \<Rightarrow> real option \<Rightarrow> (string \<rightharpoonup> pyvalue)" where
  "ma_status sma_20 sma_50 = [''sma_20'' \<mapsto> float_of sma_20, ''sma_50'' \<mapsto> float_of sma_50]"

section \<open>Trend (\<open>api/api.py\<close>)\<close>

text \<open>
  The trend of \<open>analyze_stock\<close>, from the last row of the frame. \<open>latest_data.get\<close>
  yields \<open>0\<close> for a column that the frame does not have. The strength divides by the
  slow average. The response of the endpoint rounds the strength to two decimals, which
  the model leaves out.
\<close>

definition latest_get :: "dataframe \<Rightarrow> nat \<Rightarrow> real option" where
  "latest_get df w = (case SMA df w of None \<Rightarrow> Some 0 | Some c \<Rightarrow> last c)"

definition strength :: "string \<Rightarrow> real \<Rightarrow> real \<Rightarrow> error + string \<times> real" where
  "strength label num den =
     (if den = 0 then Inl ZeroDivisionError else Inr (label, (num / den) * 100))"

definition trend_of :: "real \<Rightarrow> real option \<Rightarrow> real option \<Rightarrow> error + string \<times> real" where
  "trend_of cur sma_20 sma_50 =
     (case (sma_20, sma_50) of
        (Some f, Some s) \<Rightarrow>
          if cur > f \<and> f > s then strength ''STRONG_BULLISH'' (f - s) s
          else if cur > f \<and> f < s then strength ''MIXED_BULLISH'' (s - f) s
          else if cur < f \<and> f < s then strength ''STRONG_BEARISH'' (s - f) s
          else strength ''MIXED_BEARISH'' (f - s) s
      | _ \<Rightarrow> Inr (''INSUFFICIENT_DATA'', 0))"

definition latest_trend :: "dataframe \<Rightarrow> error + string \<times> real" where
  "latest_trend df =
     (if index df = [] then Inl IndexError
      else trend_of (last (Close df)) (latest_get df 20) (latest_get df 50))"

text \<open>
  \<open>analyze_trend\<close> of \<open>indicators/simple_indicators.py\<close> prints a trend text for the
  command line and returns nothing; the model yields the text it prints, \<open>None\<close> when it
  returns before. Here \<open>latest.get\<close> has no default, so a missing column counts as
  undefined.
\<close>

definition analyze_trend :: "dataframe option \<Rightarrow> error + string option" where
  "analyze_trend data_with_indicators =
     (case data_with_indicators of
        None \<Rightarrow> Inr None
      | Some df \<Rightarrow>
          if index df = [] then Inl IndexError
          else
            (case (case SMA df 20 of None \<Rightarrow> None | Some c \<Rightarrow> last c,
                   case SMA df 50 of None \<Rightarrow> None | Some c \<Rightarrow> last c) of
               (Some sma_20, Some sma_50) \<Rightarrow>
                 let cur = last (Close df)
                 in Inr (Some
                      (if cur > sma_20 \<and> sma_20 > sma_50 then ''STRONG BULLISH''
                       else if cur > sma_20 \<and> sma_20 < sma_50 then
                         ''MIXED (Price up, but trend weakening)''
                       else if cur < sma_20 \<and> sma_20 < sma_50 then ''STRONG BEARISH''
                       else if cur < sma_20 \<and> sma_20 > sma_50 then
                         ''MIXED (Price down, but trend strengthening)''
                       else ''NEUTRAL''))
             | _ \<Rightarrow> Inr None))"

definition default_generator :: SimpleSignalGenerator where
  "default_generator = \<lparr>stop_loss_pct = fl 0.05, take_profit_pct = fl 0.10\<rparr>"

text \<open>
  \<open>analyze_stock\<close> up to the trend: missing data is the HTTP error 404, a failed indicator
  computation and every other exception the HTTP error 500. The result is the signal
  list with the trend label and the trend strength.
\<close>

definition analyze_stock :: "dataframe option \<Rightarrow> string \<Rightarrow> error + signal list \<times> string \<times> real" where
  "analyze_stock data symb =
     (case data of
        None \<Rightarrow> Inl HTTP404
      | Some d \<Rightarrow>
          (case add_moving_averages data 20 50 of
             None \<Rightarrow> Inl HTTP500
           | Some data_with_indicators \<Rightarrow>
               (case find_crossover_signals default_generator (Some data_with_indicators) symb of
                  Inl e \<Rightarrow> Inl HTTP500
                | Inr signals \<Rightarrow>
                    (case latest_trend data_with_indicators of
                       Inl e \<Rightarrow> Inl HTTP500
                     | Inr (trend, trend_strength) \<Rightarrow> Inr (signals, trend, trend_strength)))))"

text \<open>
  The series of the indicator test: closes \<open>10, 12, ..., 28\<close> with windows 3 and 5; the
  3-day average at index 4 is \<open>(14 + 16 + 18) / 3 = 16\<close>.
\<close>

definition test_data :: dataframe where
  "test_data = \<lparr>index = [0, 1, 2, 3, 4, 5, 6, 7, 8, 9],
                 Close = [10, 12, 14, 16, 18, 20, 22, 24, 26, 28],
                 SMA = Map.empty\<rparr>"


text \<open>
  A series with a crossover on its last day: fifty closes of 100 and then one of 200,
  on the days 0 to 50. On day 49 both averages are 100; on day 50 the fast average is
  105 and the slow average 102.
\<close>

definition crossover_data :: dataframe where
  "crossover_data = \<lparr>index = map int [0..<51], Close = replicate 50 100 @ [200], SMA = Map.empty\<rparr>"

text \<open>The BUY signal of the performance test: entry 100, stop 95, target 110.\<close>

definition test_signal :: signal where
  "test_signal = \<lparr>date = 0, symbol = ''TEST'', type = ''BUY'', price = 100,
                   stop_loss = Some 95, take_profit = Some 110,
                   risk_reward_ratio = Some 2, reason = ''''\<rparr>"

text \<open>
  Fifty bars with the close 10: one bar fewer than the detector asks for, and enough for
  both averages of the last bar.
\<close>

definition fifty_bars :: dataframe where
  "fifty_bars = \<lparr>index = map int [0..<50], Close = replicate 50 10, SMA = Map.empty\<rparr>"

text \<open>
  The frame of the edge-case test of the detector (three rows with both columns), and
  a frame of 51 rows whose two average columns are entirely NaN.
\<close>

definition small_data :: dataframe where
  "small_data = \<lparr>index = [0, 1, 2], Close = [100, 101, 102],
                  SMA = [20 \<mapsto> [Some 100, Some 101, Some 102], 50 \<mapsto> [Some 100, Some 101, Some 102]]\<rparr>"

definition undefined_frame :: dataframe where
  "undefined_frame = \<lparr>index = map int [0..<51], Close = replicate 51 100,
                       SMA = [20 \<mapsto> replicate 51 None, 50 \<mapsto> replicate 51 None]\<rparr>"

text \<open>
  Three more frames. Sixty bars, fifty-nine closes of 100 and then one of 200, to be
  augmented with the windows 10 and 20 (as the crossover test of the repository does):
  on day 58 both averages are 100, on day 59 the fast one is 110 and the slow one 105.
  A frame of three rows whose \<open>SMA_20\<close> crosses above its \<open>SMA_50\<close> on the second
  day. A frame of 51 rows with both columns written by hand: the slow average is
  undefined on day 0 and 2 afterwards, the fast average goes 1, 3, 1, 3, 3, 1, 1, ...
\<close>

definition ten_twenty_data :: dataframe where
  "ten_twenty_data = \<lparr>index = map int [0..<60], Close = replicate 59 100 @ [200], SMA = Map.empty\<rparr>"

definition crossing_small :: dataframe where
  "crossing_small = \<lparr>index = [0, 1, 2], Close = [100, 101, 102],
                      SMA = [20 \<mapsto> [Some 1, Some 3, Some 3], 50 \<mapsto> [Some 2, Some 2, Some 2]]\<rparr>"

definition handmade_frame :: dataframe where
  "handmade_frame = \<lparr>index = map int [0..<51], Close = replicate 51 100,
                      SMA = [20 \<mapsto> [Some 1, Some 3, Some 1, Some 3, Some 3] @ replicate 46 (Some 1),
                             50 \<mapsto> None # replicate 50 (Some 2)]\<rparr>"

section \<open>Properties of the rounding\<close>

text \<open>
  \<open>ilog2\<close> is the exponent of the leading bit, and \<open>fl x\<close> is within half a unit of the
  last place of \<open>x\<close>. The values of the literals \<open>0.10\<close> and \<open>0.05\<close> and of some
  sums follow by evaluation; \<open>2^53 + 1\<close> and \<open>2^53 + 3\<close> are ties, rounded to even.
\<close>

lemma floor_bitlen_bounds:
  fixes y :: real
  assumes "1 \<le> y"
  shows "2 powi (bitlen \<lfloor>y\<rfloor> - 1) \<le> y \<and> y < 2 powi (bitlen \<lfloor>y\<rfloor>) \<and> 1 \<le> bitlen \<lfloor>y\<rfloor>"
proof -
  let ?n = "\<lfloor>y\<rfloor>"
  have n: "0 < ?n" using assms by simp
  have k: "1 \<le> bitlen ?n" using n by (simp add: bitlen_alt_def)
  from bitlen_bounds[OF n] have lo: "2 ^ nat (bitlen ?n - 1) \<le> ?n" and hi: "?n < 2 ^ nat (bitlen ?n)"
    by simp_all
  have "(2::real) powi (bitlen ?n - 1) = 2 ^ nat (bitlen ?n - 1)"
    using k by (simp add: power_int_def)
  also have "\<dots> = of_int (2 ^ nat (bitlen ?n - 1))" by simp
  also have "\<dots> \<le> of_int ?n" using lo by (simp only: of_int_le_iff)
  also have "\<dots> \<le> y" by simp
  finally have a: "2 powi (bitlen ?n - 1) \<le> y" .
  have "?n + 1 \<le> 2 ^ nat (bitlen ?n)" using hi by simp
  then have "of_int (?n + 1) \<le> (of_int (2 ^ nat (bitlen ?n)) :: real)" by (simp only: of_int_le_iff)
  then have "real_of_int ?n + 1 \<le> 2 ^ nat (bitlen ?n)" by simp
  moreover have "y < real_of_int ?n + 1" by linarith
  ultimately have "y < (2::real) ^ nat (bitlen ?n)" by linarith
  moreover have "(2::real) powi (bitlen ?n) = 2 ^ nat (bitlen ?n)"
    using k by (simp add: power_int_def)
  ultimately have b: "y < 2 powi (bitlen ?n)" by simp
  show ?thesis using a b k by simp
qed

lemma ilog2_bounds:
  assumes "0 < x"
  shows "2 powi (ilog2 x) \<le> x \<and> x < 2 powi (ilog2 x + 1)"
proof (cases "1 \<le> x")
  case True
  then show ?thesis
    using floor_bitlen_bounds[OF True] by (simp add: ilog2_def)
next
  case False
  let ?k = "bitlen \<lfloor>1 / x\<rfloor>"
  have y: "1 \<le> 1 / x" using assms False by simp
  from floor_bitlen_bounds[OF y] have lo: "2 powi (?k - 1) \<le> 1 / x" and hi: "1 / x < 2 powi ?k"
    by simp_all
  have p: "(0::real) < 2 powi (?k - 1)" "(0::real) < 2 powi ?k" by simp_all
  have a: "x \<le> 2 powi (1 - ?k)"
  proof -
    have "x \<le> 1 / 2 powi (?k - 1)" using lo assms p
      by (simp add: field_simps)
    also have "\<dots> = 2 powi (1 - ?k)"
      by (simp add: power_int_diff power_int_minus field_simps)
    finally show ?thesis .
  qed
  have b: "2 powi (- ?k) < x"
  proof -
    have "1 / 2 powi ?k < x" using hi assms p
      by (simp add: field_simps)
    then show ?thesis by (simp add: power_int_minus field_simps)
  qed
  have c: "(2::real) powi (- ?k + 1) = 2 powi (1 - ?k)" by (simp add: add.commute)
  have d: "(2::real) powi (1 - ?k) < 2 powi (1 - ?k + 1)"
    by (rule power_int_strict_increasing) simp_all
  show ?thesis
  proof (cases "x = 2 powi (1 - ?k)")
    case True
    then have "ilog2 x = 1 - ?k" using False by (simp add: ilog2_def Let_def)
    then show ?thesis using True d by simp
  next
    case F: False
    then have "ilog2 x = - ?k" using False by (simp add: ilog2_def Let_def)
    then show ?thesis using a b c F by simp
  qed
qed

lemma round_half_even_error: "\<bar>of_int (round_half_even y) - y\<bar> \<le> 1 / 2"
proof -
  have "of_int \<lfloor>y\<rfloor> \<le> y" "y < of_int \<lfloor>y\<rfloor> + 1" by linarith+
  then show ?thesis
    by (auto simp: round_half_even_def Let_def abs_if) linarith+
qed

lemma fl_error:
  assumes "x \<noteq> 0"
  shows "\<bar>fl x - x\<bar> \<le> 2 powi (max (ilog2 \<bar>x\<bar> - 52) (- 1074)) / 2"
proof -
  let ?e = "max (ilog2 \<bar>x\<bar> - 52) (- 1074)"
  let ?p = "(2::real) powi ?e"
  let ?m = "round_half_even (\<bar>x\<bar> / ?p)"
  have p: "0 < ?p" by simp
  have f: "fl x = sgn x * of_int ?m * ?p"
    using assms by (simp add: fl_def Let_def)
  have "x = sgn x * \<bar>x\<bar>" by (simp add: sgn_mult_abs)
  then have "fl x - x = sgn x * (of_int ?m * ?p - \<bar>x\<bar>)"
    using f by (simp add: algebra_simps)
  then have "\<bar>fl x - x\<bar> = \<bar>of_int ?m * ?p - \<bar>x\<bar>\<bar>"
    using assms by (simp add: abs_mult abs_sgn_eq)
  also have "of_int ?m * ?p - \<bar>x\<bar> = (of_int ?m - \<bar>x\<bar> / ?p) * ?p"
    using p by (simp add: field_simps)
  also have "\<bar>(of_int ?m - \<bar>x\<bar> / ?p) * ?p\<bar> = \<bar>of_int ?m - \<bar>x\<bar> / ?p\<bar> * ?p"
    using p by (simp add: abs_mult)
  also have "\<dots> \<le> 1 / 2 * ?p"
    using round_half_even_error[of "\<bar>x\<bar> / ?p"] p by (intro mult_right_mono) simp_all
  finally show ?thesis by simp
qed

lemma fl_examples:
  "fl 1 = 1" "fl 100 = 100" "fl (- 100) = - 100"
  "fl 0.10 = 3602879701896397 / 2 ^ 55"
  "fl 0.05 = 3602879701896397 / 2 ^ 56"
  "fl (2 ^ 53 + 1) = 2 ^ 53" "fl (2 ^ 53 + 3) = 2 ^ 53 + 4"
  "fl (1 + fl 0.10) = 2476979795053773 / 2 ^ 51"
  by code_simp+

section \<open>Properties of the moving averages\<close>

lemma length_rolling_window: "length (rolling_window w win xs) = length xs"
  by (induction xs arbitrary: win) (auto simp: Let_def)

lemma length_rolling_mean: "length (rolling_mean w xs) = length xs"
  by (simp add: rolling_mean_def length_rolling_window)

text \<open>
  The invariant of the sliding window: at position \<open>i\<close> the window holds the last \<open>w\<close>
  of the observations seen so far.
\<close>

lemma rolling_window_nth:
  "length win \<le> w \<Longrightarrow> i < length xs \<Longrightarrow>
   rolling_window w win xs ! i =
     (if 0 < w \<and> w \<le> length win + Suc i
      then Some (sum_list (drop (length win + Suc i - w) (win @ take (Suc i) xs)) / real w)
      else None)"
proof (induction xs arbitrary: win i)
  case Nil
  then show ?case by simp
next
  case (Cons x xs)
  let ?win' = "if length win < w then win @ [x] else tl (win @ [x])"
  have len': "length ?win' \<le> w" using Cons.prems by auto
  show ?case
  proof (cases i)
    case 0
    show ?thesis
    proof (cases "length win < w")
      case True
      then show ?thesis using 0 by (auto simp: Let_def)
    next
      case False
      then have "length win = w" using Cons.prems by simp
      then show ?thesis using 0 by (cases win) (auto simp: Let_def)
    qed
  next
    case (Suc j)
    then have j: "j < length xs" using Cons.prems by simp
    note IH = Cons.IH[OF len' j]
    show ?thesis
    proof (cases "length win < w")
      case True
      then show ?thesis using Suc IH by (auto simp: Let_def)
    next
      case False
      then have "length win = w" using Cons.prems by simp
      then show ?thesis using Suc IH by (cases win) (auto simp: Let_def Suc_diff_le)
    qed
  qed
qed

lemma sum_list_take_drop:
  fixes xs :: "real list"
  assumes "m + n \<le> length xs"
  shows "sum_list (take n (drop m xs)) = (\<Sum>k = m..<m + n. xs ! k)"
proof -
  have len: "length (take n (drop m xs)) = n" using assms by simp
  have "sum_list (take n (drop m xs)) = (\<Sum>i = 0..<n. take n (drop m xs) ! i)"
    unfolding sum_list_sum_nth len ..
  also have "\<dots> = (\<Sum>i = 0..<n. xs ! (m + i))"
    using assms by (intro sum.cong) auto
  also have "\<dots> = (\<Sum>k = m..<m + n. xs ! k)"
    using sum.shift_bounds_nat_ivl[of "\<lambda>k. xs ! k" 0 m n] by (simp add: add.commute)
  finally show ?thesis .
qed

lemma rolling_mean_nth:
  assumes "i < length xs"
  shows "rolling_mean w xs ! i =
     (if 0 < w \<and> w - 1 \<le> i
      then Some ((\<Sum>k = i + 1 - w..i. xs ! k) / real w) else None)"
proof (cases "0 < w \<and> w - 1 \<le> i")
  case True
  then have w: "0 < w" "w \<le> Suc i" by auto
  have a: "rolling_mean w xs ! i = Some (sum_list (drop (Suc i - w) (take (Suc i) xs)) / real w)"
    using rolling_window_nth[of "[]" w i xs] assms w by (simp add: rolling_mean_def)
  have b: "drop (Suc i - w) (take (Suc i) xs) = take w (drop (Suc i - w) xs)"
    using w by (metis diff_diff_cancel drop_take)
  have c: "sum_list (take w (drop (Suc i - w) xs)) = (\<Sum>k = Suc i - w..<Suc i - w + w. xs ! k)"
    using w assms by (intro sum_list_take_drop) simp
  have d: "{Suc i - w..<Suc i - w + w} = {i + 1 - w..i}"
    using w by auto
  have "rolling_mean w xs ! i = Some ((\<Sum>k = i + 1 - w..i. xs ! k) / real w)"
    by (simp only: a b c d)
  then show ?thesis
    using True by simp
next
  case False
  then have n: "\<not> (0 < w \<and> w \<le> Suc i)" by auto
  have "rolling_window w [] xs ! i = None"
    using rolling_window_nth[of "[]" w i xs] assms n by auto
  then show ?thesis
    using False by (simp add: rolling_mean_def)
qed

text \<open>
  C2. For a non-empty price series and windows \<open>0 < fastWindow < slowWindow\<close>, the
  indicator computation succeeds and adds both columns; the fast average is defined at
  index \<open>i\<close> exactly when \<open>i \<ge> fastWindow - 1\<close>, and then it is the arithmetic mean of
  the closes over the indices \<open>i - fastWindow + 1 .. i\<close>; likewise the slow average with
  \<open>slowWindow\<close>.
\<close>

theorem C2_moving_average_defined_and_mean:
  assumes "index data \<noteq> []"
    and "length (Close data) = length (index data)"
    and "0 < fastWindow"
    and "fastWindow < slowWindow"
  shows "\<exists>result fast_ma slow_ma.
     add_moving_averages (Some data) fastWindow slowWindow = Some result \<and>
     SMA result fastWindow = Some fast_ma \<and> SMA result slowWindow = Some slow_ma \<and>
     length fast_ma = length (Close data) \<and> length slow_ma = length (Close data) \<and>
     (\<forall>i < length (Close data).
        (fast_ma ! i \<noteq> None \<longleftrightarrow> fastWindow - 1 \<le> i) \<and>
        (fastWindow - 1 \<le> i \<longrightarrow>
           fast_ma ! i = Some ((\<Sum>k = i + 1 - fastWindow..i. Close data ! k) / real fastWindow)) \<and>
        (slow_ma ! i \<noteq> None \<longleftrightarrow> slowWindow - 1 \<le> i) \<and>
        (slowWindow - 1 \<le> i \<longrightarrow>
           slow_ma ! i = Some ((\<Sum>k = i + 1 - slowWindow..i. Close data ! k) / real slowWindow)))"
proof -
  let ?f = "rolling_mean fastWindow (Close data)"
  let ?s = "rolling_mean slowWindow (Close data)"
  let ?r = "data\<lparr>SMA := ((SMA data)(fastWindow \<mapsto> ?f))(slowWindow \<mapsto> ?s)\<rparr>"
  have r: "add_moving_averages (Some data) fastWindow slowWindow = Some ?r"
    using assms(1) by (simp add: add_moving_averages_def)
  have cols: "SMA ?r fastWindow = Some ?f" "SMA ?r slowWindow = Some ?s"
    using assms(4) by simp_all
  have lens: "length ?f = length (Close data)" "length ?s = length (Close data)"
    by (simp_all add: length_rolling_mean)
  have sw: "0 < slowWindow" using assms(3,4) by simp
  have pts: "\<forall>i < length (Close data).
        (?f ! i \<noteq> None \<longleftrightarrow> fastWindow - 1 \<le> i) \<and>
        (fastWindow - 1 \<le> i \<longrightarrow>
           ?f ! i = Some ((\<Sum>k = i + 1 - fastWindow..i. Close data ! k) / real fastWindow)) \<and>
        (?s ! i \<noteq> None \<longleftrightarrow> slowWindow - 1 \<le> i) \<and>
        (slowWindow - 1 \<le> i \<longrightarrow>
           ?s ! i = Some ((\<Sum>k = i + 1 - slowWindow..i. Close data ! k) / real slowWindow))"
    using assms(3) sw by (simp add: rolling_mean_nth)
  show ?thesis
    using r cols lens pts by blast
qed

theorem C2_witness:
  "index test_data \<noteq> [] \<and> length (Close test_data) = length (index test_data) \<and>
   (\<exists>result fast_ma. add_moving_averages (Some test_data) 3 5 = Some result \<and>
      SMA result 3 = Some fast_ma \<and> fast_ma ! 4 = Some 16 \<and> fast_ma ! 1 = None)"
proof -
  have h1: "index test_data \<noteq> []" and h2: "length (Close test_data) = length (index test_data)"
    by (simp_all add: test_data_def)
  obtain result fast_ma slow_ma where
    r: "add_moving_averages (Some test_data) 3 5 = Some result" and
    f: "SMA result 3 = Some fast_ma" and
    p: "\<forall>i < length (Close test_data).
        (fast_ma ! i \<noteq> None \<longleftrightarrow> 3 - 1 \<le> i) \<and>
        (3 - 1 \<le> i \<longrightarrow> fast_ma ! i = Some ((\<Sum>k = i + 1 - 3..i. Close test_data ! k) / real 3))"
    using C2_moving_average_defined_and_mean[OF h1 h2, of 3 5] by auto
  have l: "length (Close test_data) = 10" by (simp add: test_data_def)
  have "{4 + 1 - 3..4} = {2, 3, 4::nat}" by auto
  then have s: "(\<Sum>k = 4 + 1 - 3..4. Close test_data ! k) = 48"
    by (simp add: test_data_def)
  have "fast_ma ! 4 = Some 16" using p[rule_format, of 4] l s by simp
  moreover have "fast_ma ! 1 = None" using p[rule_format, of 1] l by simp
  ultimately show ?thesis using h1 h2 r f by blast
qed

section \<open>The crossover loop\<close>

lemma create_buy_signal_ok:
  "stop_loss_pct self \<noteq> 0 \<Longrightarrow> \<exists>s. create_buy_signal self d p symb = Inr s"
  by (simp add: create_buy_signal_def Let_def)

lemma crossover_body_append:
  assumes "stop_loss_pct self \<noteq> 0"
  shows "crossover_body self df fast slow symb i acc = Inr (acc @ emitted_at self df fast slow symb i)"
  using create_buy_signal_ok[OF assms, of "index df ! i" "Close df ! i" symb]
  by (auto simp: crossover_body_def emitted_at_def Let_def split: option.splits sum.splits)

lemma for_loop_crossover:
  assumes "stop_loss_pct self \<noteq> 0"
  shows "for_loop (crossover_body self df fast slow symb) js acc =
         Inr (acc @ concat (map (emitted_at self df fast slow symb) js))"
  by (induction js arbitrary: acc) (simp_all add: crossover_body_append[OF assms])

lemma emitted_at_cases:
  "emitted_at self df fast slow symb i = [] \<or>
   (\<exists>s. emitted_at self df fast slow symb i = [s] \<and> date s = index df ! i \<and> price s = Close df ! i \<and>
      (create_buy_signal self (index df ! i) (Close df ! i) symb = Inr s \<or>
       s = create_sell_signal self (index df ! i) (Close df ! i) symb))"
  by (auto simp: crossover_body_def emitted_at_def Let_def create_buy_signal_def create_sell_signal_def
      split: option.splits sum.splits if_splits)

lemma crossover_body_step:
  assumes "crossover_body self df fast slow symb i acc = Inr acc'"
  shows "acc' = acc \<or> (\<exists>s. acc' = acc @ [s] \<and> made_by self symb s)"
proof -
  have "acc' = acc \<or> (\<exists>s. acc' = acc @ [s] \<and>
      (create_buy_signal self (index df ! i) (Close df ! i) symb = Inr s \<or>
       s = create_sell_signal self (index df ! i) (Close df ! i) symb))"
    using assms
    by (auto simp: crossover_body_def Let_def split: option.splits sum.splits if_splits)
  then show ?thesis unfolding made_by_def by blast
qed

lemma for_loop_made_by:
  assumes "for_loop (crossover_body self df fast slow symb) js acc = Inr out"
    and "\<forall>s \<in> set acc. made_by self symb s"
  shows "\<forall>s \<in> set out. made_by self symb s"
  using assms
proof (induction js arbitrary: acc)
  case Nil
  then show ?case by simp
next
  case (Cons j js)
  from Cons.prems(1) obtain acc' where
    b: "crossover_body self df fast slow symb j acc = Inr acc'" and
    l: "for_loop (crossover_body self df fast slow symb) js acc' = Inr out"
    by (auto split: sum.splits)
  from crossover_body_step[OF b] Cons.prems(2) have "\<forall>s \<in> set acc'. made_by self symb s"
    by auto
  from Cons.IH[OF l this] show ?case .
qed

lemma find_crossover_signals_made_by:
  assumes "find_crossover_signals self data symb = Inr signals" and "s \<in> set signals"
  shows "made_by self symb s"
  using assms for_loop_made_by[of self _ _ _ symb _ "[]" signals]
  by (auto simp: find_crossover_signals_def split: option.splits if_splits)

lemma made_by_buy:
  assumes "made_by self symb s" and "type s = ''BUY''"
  shows "create_buy_signal self (date s) (price s) symb = Inr s"
  using assms
  by (auto simp: made_by_def create_buy_signal_def create_sell_signal_def Let_def split: if_splits)

lemma made_by_type: "made_by self symb s \<Longrightarrow> type s = ''BUY'' \<or> type s = ''SELL''"
  by (auto simp: made_by_def create_buy_signal_def create_sell_signal_def Let_def split: if_splits)

lemma emitted_at_date: "x \<in> set (emitted_at self df fast slow symb i) \<Longrightarrow> date x = index df ! i"
  using emitted_at_cases[of self df fast slow symb i] by auto

lemma emitted_at_length: "length (emitted_at self df fast slow symb i) \<le> 1"
  using emitted_at_cases[of self df fast slow symb i] by auto

lemma emitted_at_undefined:
  "fast ! i = None \<or> slow ! i = None \<or> fast ! (i - 1) = None \<or> slow ! (i - 1) = None \<Longrightarrow>
   emitted_at self df fast slow symb i = []"
  by (auto simp: emitted_at_def crossover_body_def Let_def split: option.splits)

lemma emitted_at_defined:
  assumes "stop_loss_pct self \<noteq> 0"
    and "fast ! i = Some ft" "slow ! i = Some st" "fast ! (i - 1) = Some fy" "slow ! (i - 1) = Some sy"
  shows "emitted_at self df fast slow symb i =
     (if fy \<le> sy \<and> ft > st then
        [\<lparr>date = index df ! i, symbol = symb, type = ''BUY'', price = Close df ! i,
          stop_loss = Some (fl (Close df ! i * fl (1 - stop_loss_pct self))),
          take_profit = Some (fl (Close df ! i * fl (1 + take_profit_pct self))),
          risk_reward_ratio = Some (fl (take_profit_pct self / stop_loss_pct self)),
          reason = ''SMA 20 crossed above SMA 50''\<rparr>]
      else if fy \<ge> sy \<and> ft < st then
        [\<lparr>date = index df ! i, symbol = symb, type = ''SELL'', price = Close df ! i,
          stop_loss = None, take_profit = None, risk_reward_ratio = None,
          reason = ''SMA 20 crossed below SMA 50''\<rparr>]
      else [])"
  using assms
  by (simp add: emitted_at_def crossover_body_def Let_def create_buy_signal_def create_sell_signal_def)

text \<open>The dates of the emitted signals follow the dates of the index.\<close>

lemma sorted_dates_concat:
  fixes idx :: "date list" and E :: "nat \<Rightarrow> signal list"
  assumes "sorted_wrt (<) idx" and "sorted_wrt (<) js" and "\<forall>j \<in> set js. j < length idx"
    and "\<And>j x. x \<in> set (E j) \<Longrightarrow> date x = idx ! j"
    and "\<And>j. length (E j) \<le> 1"
  shows "sorted_wrt (<) (map date (concat (map E js)))"
  using assms(2,3)
proof (induction js)
  case Nil
  then show ?case by simp
next
  case (Cons j js)
  have one: "sorted_wrt (<) (map date (E j))"
    using assms(5)[of j] by (cases "E j") auto
  have rest: "sorted_wrt (<) (map date (concat (map E js)))"
    using Cons by simp
  have "date x < date y" if "x \<in> set (E j)" "k \<in> set js" "y \<in> set (E k)" for x y k
  proof -
    have "j < k" "k < length idx" using Cons.prems that(2) by auto
    then have "idx ! j < idx ! k" using assms(1) by (simp add: sorted_wrt_nth_less)
    then show ?thesis using assms(4)[OF that(1)] assms(4)[OF that(3)] by simp
  qed
  then have cross: "\<forall>x\<in>set (E j). \<forall>k\<in>set js. \<forall>y\<in>set (E k). date x < date y"
    by blast
  show ?case
    using one rest cross by (simp add: sorted_wrt_append)
qed

lemma signal_at_bar:
  fixes idx :: "date list" and E :: "nat \<Rightarrow> signal list"
  assumes "sorted_wrt (<) idx" and "\<forall>j \<in> set js. j < length idx" and "i \<in> set js"
    and "\<And>j x. x \<in> set (E j) \<Longrightarrow> date x = idx ! j"
  shows "{x \<in> set (concat (map E js)). date x = idx ! i} = set (E i)"
proof -
  have dist: "distinct idx" using assms(1) by (simp add: strict_sorted_iff)
  have uniq: "j = i" if "j \<in> set js" "x \<in> set (E j)" "date x = idx ! i" for j x
  proof -
    have "idx ! j = idx ! i" using assms(4)[OF that(2)] that(3) by simp
    then show ?thesis using dist assms(2,3) that(1) by (simp add: nth_eq_iff_index_eq)
  qed
  show ?thesis
  proof (intro set_eqI iffI)
    fix x assume "x \<in> {x \<in> set (concat (map E js)). date x = idx ! i}"
    then obtain j where j: "j \<in> set js" "x \<in> set (E j)" "date x = idx ! i" by auto
    then show "x \<in> set (E i)" using uniq[OF j] by simp
  next
    fix x assume "x \<in> set (E i)"
    then show "x \<in> {x \<in> set (concat (map E js)). date x = idx ! i}"
      using assms(3,4) by auto
  qed
qed

lemma filter_distinct_le_one:
  "distinct (map f xs) \<Longrightarrow> length (filter (\<lambda>x. f x = d) xs) \<le> 1"
proof (induction xs)
  case Nil
  then show ?case by simp
next
  case (Cons a xs)
  show ?case
  proof (cases "f a = d")
    case True
    have "f a \<notin> f ` set xs" using Cons.prems by simp
    then have "\<forall>x \<in> set xs. f x \<noteq> d" using True by blast
    then have "filter (\<lambda>x. f x = d) xs = []" by (simp add: filter_empty_conv)
    then show ?thesis using True by simp
  next
    case False
    then show ?thesis using Cons by simp
  qed
qed

text \<open>The detector on a frame that passes its two guards.\<close>

lemma find_crossover_signals_concat:
  assumes "stop_loss_pct self \<noteq> 0" and "51 \<le> length (index df)"
    and "SMA df 20 = Some fast" and "SMA df 50 = Some slow"
  shows "find_crossover_signals self (Some df) symb =
         Inr (concat (map (emitted_at self df fast slow symb) [1..<length (index df)]))"
  using assms by (simp add: find_crossover_signals_def for_loop_crossover)

lemma crossover_general:
  assumes sl: "stop_loss_pct self \<noteq> 0" and n: "51 \<le> length (index df)"
    and f: "SMA df 20 = Some fast" and s: "SMA df 50 = Some slow"
    and dates: "sorted_wrt (<) (index df)"
    and sig: "find_crossover_signals self (Some df) symb = Inr signals"
  shows "sorted_wrt (<) (map date signals)"
    and "0 < i \<Longrightarrow> i < length (index df) \<Longrightarrow>
         {x \<in> set signals. date x = index df ! i} = set (emitted_at self df fast slow symb i)"
proof -
  have eq: "signals = concat (map (emitted_at self df fast slow symb) [1..<length (index df)])"
    using find_crossover_signals_concat[OF sl n f s, of symb] sig by simp
  show "sorted_wrt (<) (map date signals)"
    unfolding eq
  proof (rule sorted_dates_concat[OF dates])
    show "sorted_wrt (<) [1..<length (index df)]" by (rule sorted_wrt_upt)
    show "\<forall>j \<in> set [1..<length (index df)]. j < length (index df)" by simp
    show "\<And>j x. x \<in> set (emitted_at self df fast slow symb j) \<Longrightarrow> date x = index df ! j"
      by (rule emitted_at_date)
    show "\<And>j. length (emitted_at self df fast slow symb j) \<le> 1"
      by (rule emitted_at_length)
  qed
  show "{x \<in> set signals. date x = index df ! i} = set (emitted_at self df fast slow symb i)"
    if "0 < i" "i < length (index df)"
    unfolding eq using that
    by (intro signal_at_bar[OF dates]) (auto simp: emitted_at_date)
qed

lemma add_moving_averages_default:
  assumes "add_moving_averages (Some data) 20 50 = Some df"
  shows "index data \<noteq> []" and "index df = index data" and "Close df = Close data"
    and "SMA df 20 = Some (rolling_mean 20 (Close data))"
    and "SMA df 50 = Some (rolling_mean 50 (Close data))"
  using assms by (auto simp: add_moving_averages_def Let_def split: if_splits)

lemma at_bar_iff:
  assumes "{x \<in> set signals. date x = d} = set E"
  shows "(\<exists>s\<in>set signals. date s = d \<and> P s) \<longleftrightarrow> (\<exists>s\<in>set E. P s)"
  using assms by blast

text \<open>The series with a crossover, evaluated.\<close>

lemma crossover_data_signals:
  "find_crossover_signals default_generator (add_moving_averages (Some crossover_data) 20 50) ''TEST'' =
   Inr [\<lparr>date = 50, symbol = ''TEST'', type = ''BUY'', price = 200, stop_loss = Some 190,
         take_profit = Some (220 + 1 / 2 ^ 45), risk_reward_ratio = Some 2,
         reason = ''SMA 20 crossed above SMA 50''\<rparr>]"
  by code_simp

lemma crossover_data_hyps:
  "length (Close crossover_data) = length (index crossover_data)"
  "sorted_wrt (<) (index crossover_data)"
  "stop_loss_pct default_generator \<noteq> 0"
proof -
  show "length (Close crossover_data) = length (index crossover_data)"
    by (simp add: crossover_data_def)
  have "sorted_wrt (<) (map int [0..<51])"
    by (simp add: sorted_wrt_map sorted_wrt_upt del: upt_rec_numeral)
  then show "sorted_wrt (<) (index crossover_data)" by (simp add: crossover_data_def)
  show "stop_loss_pct default_generator \<noteq> 0" by code_simp
qed

section \<open>Crossover completeness\<close>

text \<open>
  C1, as the claim states it, fails: the detector reads the columns \<open>SMA_20\<close> and
  \<open>SMA_50\<close> whatever the windows of the series are, and returns nothing for a frame of
  fewer than 51 bars. A series of 60 bars augmented with the windows 10 and 20 has all
  four averages defined on the days 58 and 59, and its fast average crosses above the
  slow one on day 59; no signal is emitted. Neither is one for the frame of three rows
  whose \<open>SMA_20\<close> crosses above its \<open>SMA_50\<close>.
\<close>

theorem C1_counterexample:
  "rolling_mean 10 (Close ten_twenty_data) ! 58 = Some 100 \<and>
   rolling_mean 20 (Close ten_twenty_data) ! 58 = Some 100 \<and>
   rolling_mean 10 (Close ten_twenty_data) ! 59 = Some 110 \<and>
   rolling_mean 20 (Close ten_twenty_data) ! 59 = Some 105 \<and>
   add_moving_averages (Some ten_twenty_data) 10 20 =
     Some (ten_twenty_data\<lparr>SMA := [10 \<mapsto> rolling_mean 10 (Close ten_twenty_data),
                                    20 \<mapsto> rolling_mean 20 (Close ten_twenty_data)]\<rparr>) \<and>
   find_crossover_signals default_generator (add_moving_averages (Some ten_twenty_data) 10 20) ''TEST'' = Inr [] \<and>
   find_crossover_signals default_generator (Some crossing_small) ''TEST'' = Inr []"
proof -
  have a: "rolling_mean 10 (Close ten_twenty_data) ! 58 = Some 100"
    "rolling_mean 20 (Close ten_twenty_data) ! 58 = Some 100"
    "rolling_mean 10 (Close ten_twenty_data) ! 59 = Some 110"
    "rolling_mean 20 (Close ten_twenty_data) ! 59 = Some 105"
    by code_simp+
  have b: "add_moving_averages (Some ten_twenty_data) 10 20 =
     Some (ten_twenty_data\<lparr>SMA := [10 \<mapsto> rolling_mean 10 (Close ten_twenty_data),
                                    20 \<mapsto> rolling_mean 20 (Close ten_twenty_data)]\<rparr>)"
    by (simp add: add_moving_averages_def Let_def ten_twenty_data_def)
  have c: "find_crossover_signals default_generator (add_moving_averages (Some ten_twenty_data) 10 20) ''TEST'' = Inr []"
    unfolding b by (simp add: find_crossover_signals_def ten_twenty_data_def)
  have d: "find_crossover_signals default_generator (Some crossing_small) ''TEST'' = Inr []"
    by (simp add: find_crossover_signals_def crossing_small_def)
  show ?thesis using a b c d by simp
qed

lemma handmade_frame_hyps:
  "wf_frame handmade_frame"
  "51 \<le> length (index handmade_frame)"
  "SMA handmade_frame 20 = Some ([Some 1, Some 3, Some 1, Some 3, Some 3] @ replicate 46 (Some 1))"
  "SMA handmade_frame 50 = Some (None # replicate 50 (Some 2))"
  "sorted_wrt (<) (index handmade_frame)"
proof -
  show "wf_frame handmade_frame" by (simp add: wf_frame_def handmade_frame_def)
  show "51 \<le> length (index handmade_frame)" by (simp add: handmade_frame_def)
  show "SMA handmade_frame 20 = Some ([Some 1, Some 3, Some 1, Some 3, Some 3] @ replicate 46 (Some 1))"
    by (simp add: handmade_frame_def)
  show "SMA handmade_frame 50 = Some (None # replicate 50 (Some 2))"
    by (simp add: handmade_frame_def)
  have "sorted_wrt (<) (map int [0..<51])"
    by (simp add: sorted_wrt_map sorted_wrt_upt del: upt_rec_numeral)
  then show "sorted_wrt (<) (index handmade_frame)" by (simp add: handmade_frame_def)
qed

text \<open>
  C1, amended. Let the frame have at least 51 bars and the two columns \<open>SMA_20\<close> (fast)
  and \<open>SMA_50\<close> (slow), strictly increasing dates, and let the stop-loss percentage
  be non-zero. Then detection succeeds, its signals are in strictly ascending date
  order, and for every bar \<open>i > 0\<close>: at most one signal carries the date of bar \<open>i\<close>;
  when one of the four averages of the days \<open>i - 1\<close> and \<open>i\<close> is undefined, no signal
  carries that date; and when all four are defined, a BUY signal is emitted at bar \<open>i\<close>
  exactly when \<open>fast[i-1] \<le> slow[i-1]\<close> and \<open>fast[i] > slow[i]\<close>, a SELL signal
  exactly when \<open>fast[i-1] \<ge> slow[i-1]\<close> and \<open>fast[i] < slow[i]\<close>, and a signal at all
  exactly when one of the two holds.
\<close>

theorem C1_crossover_signals_sma_20_50:
  assumes wf: "wf_frame df" and n: "51 \<le> length (index df)"
    and f: "SMA df 20 = Some fast" and s: "SMA df 50 = Some slow"
    and dates: "sorted_wrt (<) (index df)"
    and sl: "stop_loss_pct self \<noteq> 0"
  shows "\<exists>signals.
     find_crossover_signals self (Some df) symb = Inr signals \<and>
     sorted_wrt (<) (map date signals) \<and>
     (\<forall>i. 0 < i \<and> i < length (index df) \<longrightarrow>
        length (filter (\<lambda>s. date s = index df ! i) signals) \<le> 1 \<and>
        (fast ! i = None \<or> slow ! i = None \<or> fast ! (i - 1) = None \<or> slow ! (i - 1) = None \<longrightarrow>
           (\<forall>s\<in>set signals. date s \<noteq> index df ! i)) \<and>
        (\<forall>ft st fy sy.
           fast ! i = Some ft \<and> slow ! i = Some st \<and> fast ! (i - 1) = Some fy \<and> slow ! (i - 1) = Some sy \<longrightarrow>
           ((\<exists>s\<in>set signals. date s = index df ! i \<and> type s = ''BUY'') \<longleftrightarrow> fy \<le> sy \<and> ft > st) \<and>
           ((\<exists>s\<in>set signals. date s = index df ! i \<and> type s = ''SELL'') \<longleftrightarrow> fy \<ge> sy \<and> ft < st) \<and>
           ((\<exists>s\<in>set signals. date s = index df ! i) \<longleftrightarrow>
              (fy \<le> sy \<and> ft > st) \<or> (fy \<ge> sy \<and> ft < st))))"
proof -
  let ?E = "emitted_at self df fast slow symb"
  let ?signals = "concat (map ?E [1..<length (index df)])"
  have sig: "find_crossover_signals self (Some df) symb = Inr ?signals"
    by (rule find_crossover_signals_concat[OF sl n f s])
  note gen = crossover_general[OF sl n f s dates sig]
  have srt: "sorted_wrt (<) (map date ?signals)" by (rule gen(1))
  then have dist: "distinct (map date ?signals)" by (simp add: strict_sorted_iff)
  have bar: "length (filter (\<lambda>s. date s = index df ! i) ?signals) \<le> 1 \<and>
      (fast ! i = None \<or> slow ! i = None \<or> fast ! (i - 1) = None \<or> slow ! (i - 1) = None \<longrightarrow>
         (\<forall>s\<in>set ?signals. date s \<noteq> index df ! i)) \<and>
      (\<forall>ft st fy sy.
         fast ! i = Some ft \<and> slow ! i = Some st \<and> fast ! (i - 1) = Some fy \<and> slow ! (i - 1) = Some sy \<longrightarrow>
         ((\<exists>s\<in>set ?signals. date s = index df ! i \<and> type s = ''BUY'') \<longleftrightarrow> fy \<le> sy \<and> ft > st) \<and>
         ((\<exists>s\<in>set ?signals. date s = index df ! i \<and> type s = ''SELL'') \<longleftrightarrow> fy \<ge> sy \<and> ft < st) \<and>
         ((\<exists>s\<in>set ?signals. date s = index df ! i) \<longleftrightarrow>
            (fy \<le> sy \<and> ft > st) \<or> (fy \<ge> sy \<and> ft < st)))"
    if i: "0 < i" "i < length (index df)" for i
  proof (intro conjI allI impI)
    note at = gen(2)[OF i]
    show "length (filter (\<lambda>s. date s = index df ! i) ?signals) \<le> 1"
      by (rule filter_distinct_le_one[OF dist])
    show "\<forall>s\<in>set ?signals. date s \<noteq> index df ! i"
      if "fast ! i = None \<or> slow ! i = None \<or> fast ! (i - 1) = None \<or> slow ! (i - 1) = None"
      using at emitted_at_undefined[OF that, of self df symb] by auto
    fix ft st fy sy
    assume d: "fast ! i = Some ft \<and> slow ! i = Some st \<and> fast ! (i - 1) = Some fy \<and> slow ! (i - 1) = Some sy"
    then have E: "?E i =
      (if fy \<le> sy \<and> ft > st then
      [\<lparr>date = index df ! i, symbol = symb, type = ''BUY'', price = Close df ! i,
        stop_loss = Some (fl (Close df ! i * fl (1 - stop_loss_pct self))),
        take_profit = Some (fl (Close df ! i * fl (1 + take_profit_pct self))),
        risk_reward_ratio = Some (fl (take_profit_pct self / stop_loss_pct self)),
        reason = ''SMA 20 crossed above SMA 50''\<rparr>]
    else if fy \<ge> sy \<and> ft < st then
      [\<lparr>date = index df ! i, symbol = symb, type = ''SELL'', price = Close df ! i,
        stop_loss = None, take_profit = None, risk_reward_ratio = None,
        reason = ''SMA 20 crossed below SMA 50''\<rparr>]
    else [])"
      using emitted_at_defined[OF sl, of fast i ft slow st fy sy df symb] by simp
    show "(\<exists>s\<in>set ?signals. date s = index df ! i \<and> type s = ''BUY'') \<longleftrightarrow> fy \<le> sy \<and> ft > st"
      unfolding at_bar_iff[OF at] E by auto
    show "(\<exists>s\<in>set ?signals. date s = index df ! i \<and> type s = ''SELL'') \<longleftrightarrow> fy \<ge> sy \<and> ft < st"
      unfolding at_bar_iff[OF at] E by auto
    show "(\<exists>s\<in>set ?signals. date s = index df ! i) \<longleftrightarrow> (fy \<le> sy \<and> ft > st) \<or> (fy \<ge> sy \<and> ft < st)"
      using at_bar_iff[OF at, of "\<lambda>_. True"] unfolding E by auto
  qed
  show ?thesis
    using sig srt bar by blast
qed

theorem C1_witness:
  "wf_frame handmade_frame \<and> 51 \<le> length (index handmade_frame) \<and>
   SMA handmade_frame 20 = Some ([Some 1, Some 3, Some 1, Some 3, Some 3] @ replicate 46 (Some 1)) \<and>
   SMA handmade_frame 50 = Some (None # replicate 50 (Some 2)) \<and>
   sorted_wrt (<) (index handmade_frame) \<and> stop_loss_pct default_generator \<noteq> 0 \<and>
   (\<exists>signals.
      find_crossover_signals default_generator (Some handmade_frame) ''TEST'' = Inr signals \<and>
      sorted_wrt (<) (map date signals) \<and>
      (\<forall>s\<in>set signals. date s \<noteq> index handmade_frame ! 1) \<and>
      (\<exists>s\<in>set signals. date s = index handmade_frame ! 2 \<and> type s = ''SELL'') \<and>
      (\<exists>s\<in>set signals. date s = index handmade_frame ! 3 \<and> type s = ''BUY'') \<and>
      (\<forall>s\<in>set signals. date s \<noteq> index handmade_frame ! 4))"
proof -
  let ?fast = "[Some 1, Some 3, Some 1, Some 3, Some 3] @ replicate 46 (Some (1::real))"
  let ?slow = "None # replicate 50 (Some (2::real))"
  note h = handmade_frame_hyps crossover_data_hyps(3)
  have n: "length (index handmade_frame) = 51" by (simp add: handmade_frame_def)
  show ?thesis
    using C1_crossover_signals_sma_20_50[OF h, of "''TEST''"]
  proof (elim exE conjE)
    fix signals
    assume sig: "find_crossover_signals default_generator (Some handmade_frame) ''TEST'' = Inr signals"
      and srt: "sorted_wrt (<) (map date signals)"
      and bars: "\<forall>i. 0 < i \<and> i < length (index handmade_frame) \<longrightarrow>
        length (filter (\<lambda>s. date s = index handmade_frame ! i) signals) \<le> 1 \<and>
        (?fast ! i = None \<or> ?slow ! i = None \<or> ?fast ! (i - 1) = None \<or> ?slow ! (i - 1) = None \<longrightarrow>
           (\<forall>s\<in>set signals. date s \<noteq> index handmade_frame ! i)) \<and>
        (\<forall>ft st fy sy.
           ?fast ! i = Some ft \<and> ?slow ! i = Some st \<and> ?fast ! (i - 1) = Some fy \<and> ?slow ! (i - 1) = Some sy \<longrightarrow>
           ((\<exists>s\<in>set signals. date s = index handmade_frame ! i \<and> type s = ''BUY'') \<longleftrightarrow> fy \<le> sy \<and> ft > st) \<and>
           ((\<exists>s\<in>set signals. date s = index handmade_frame ! i \<and> type s = ''SELL'') \<longleftrightarrow> fy \<ge> sy \<and> ft < st) \<and>
           ((\<exists>s\<in>set signals. date s = index handmade_frame ! i) \<longleftrightarrow>
              (fy \<le> sy \<and> ft > st) \<or> (fy \<ge> sy \<and> ft < st)))"
    have v1: "?slow ! (1 - 1) = None" by simp
    have v2: "?fast ! 2 = Some 1" "?slow ! 2 = Some 2" "?fast ! (2 - 1) = Some 3" "?slow ! (2 - 1) = Some 2"
      by code_simp+
    have v3: "?fast ! 3 = Some 3" "?slow ! 3 = Some 2" "?fast ! (3 - 1) = Some 1" "?slow ! (3 - 1) = Some 2"
      by code_simp+
    have v4: "?fast ! 4 = Some 3" "?slow ! 4 = Some 2" "?fast ! (4 - 1) = Some 3" "?slow ! (4 - 1) = Some 2"
      by code_simp+
    have b1: "\<forall>s\<in>set signals. date s \<noteq> index handmade_frame ! 1"
      using bars[rule_format, of 1] n v1 by auto
    have b2: "\<exists>s\<in>set signals. date s = index handmade_frame ! 2 \<and> type s = ''SELL''"
      using bars[rule_format, of 2] n v2 by auto
    have b3: "\<exists>s\<in>set signals. date s = index handmade_frame ! 3 \<and> type s = ''BUY''"
      using bars[rule_format, of 3] n v3 by auto
    have "\<not> (\<exists>s\<in>set signals. date s = index handmade_frame ! 4)"
      using bars[rule_format, of 4] n v4 by auto
    then have b4: "\<forall>s\<in>set signals. date s \<noteq> index handmade_frame ! 4" by blast
    show ?thesis
      using h sig srt b1 b2 b3 b4 by blast
  qed
qed

section \<open>Risk fields of BUY signals\<close>

text \<open>
  C4, as the claim states it, fails at its own example: with price 100 and the
  percentages 0.05 and 0.10 the program computes \<open>100 * (1 + 0.10)\<close> in doubles and the
  signal carries the take-profit \<open>110 + 2^-46\<close> (printed 110.00000000000001), not 110;
  the stop-loss is 95 and the ratio 2. The ratio 2 then differs from
  \<open>(take_profit / price - 1) / (1 - stop_loss / price)\<close>.
\<close>

theorem C4_counterexample:
  "create_buy_signal \<lparr>stop_loss_pct = fl 0.05, take_profit_pct = fl 0.10\<rparr> 0 100 ''TEST'' =
     Inr \<lparr>date = 0, symbol = ''TEST'', type = ''BUY'', price = 100,
          stop_loss = Some 95, take_profit = Some (110 + 1 / 2 ^ 46),
          risk_reward_ratio = Some 2, reason = ''SMA 20 crossed above SMA 50''\<rparr> \<and>
   (110 + 1 / 2 ^ 46 :: real) \<noteq> 110 \<and>
   ((110 + 1 / 2 ^ 46) / 100 - 1) / (1 - 95 / 100) \<noteq> (2 :: real)"
  by code_simp

text \<open>
  C4, amended. Every BUY signal that the detector emits carries
  \<open>stop_loss = price * (1 - stop_loss_pct)\<close>, \<open>take_profit = price * (1 + take_profit_pct)\<close>
  and \<open>risk_reward_ratio = take_profit_pct / stop_loss_pct\<close>, each operation rounded to
  the nearest double. With price 100 and the percentages 0.05 and 0.10 the signal
  carries the stop-loss 95, the take-profit \<open>110 + 2^-46\<close> and the ratio 2.
\<close>

theorem C4_buy_signal_risk_fields:
  "(find_crossover_signals self data symb = Inr signals \<and> s \<in> set signals \<and> type s = ''BUY'' \<longrightarrow>
      stop_loss s = Some (fl (price s * fl (1 - stop_loss_pct self))) \<and>
      take_profit s = Some (fl (price s * fl (1 + take_profit_pct self))) \<and>
      risk_reward_ratio s = Some (fl (take_profit_pct self / stop_loss_pct self))) \<and>
   (\<exists>s'. create_buy_signal \<lparr>stop_loss_pct = fl 0.05, take_profit_pct = fl 0.10\<rparr> d 100 symb' = Inr s' \<and>
      stop_loss s' = Some 95 \<and> take_profit s' = Some (110 + 1 / 2 ^ 46) \<and>
      risk_reward_ratio s' = Some 2)"
proof (intro conjI impI)
  assume a: "find_crossover_signals self data symb = Inr signals \<and> s \<in> set signals \<and> type s = ''BUY''"
  then have "made_by self symb s" using find_crossover_signals_made_by by blast
  then have c: "create_buy_signal self (date s) (price s) symb = Inr s"
    using a by (simp add: made_by_buy)
  then have nz: "stop_loss_pct self \<noteq> 0"
    by (auto simp: create_buy_signal_def Let_def split: if_splits)
  have s: "s = \<lparr>date = date s, symbol = symb, type = ''BUY'', price = price s,
                   stop_loss = Some (fl (price s * fl (1 - stop_loss_pct self))),
                   take_profit = Some (fl (price s * fl (1 + take_profit_pct self))),
                   risk_reward_ratio = Some (fl (take_profit_pct self / stop_loss_pct self)),
                   reason = ''SMA 20 crossed above SMA 50''\<rparr>"
    using c nz by (simp add: create_buy_signal_def Let_def)
  show "stop_loss s = Some (fl (price s * fl (1 - stop_loss_pct self)))"
    by (subst s, simp)
  show "take_profit s = Some (fl (price s * fl (1 + take_profit_pct self)))"
    by (subst s, simp)
  show "risk_reward_ratio s = Some (fl (take_profit_pct self / stop_loss_pct self))"
    by (subst s, simp)
next
  have nz: "fl 0.05 \<noteq> 0" by code_simp
  have sl: "fl (100 * fl (1 - fl 0.05)) = 95" by code_simp
  have tp: "fl (100 * fl (1 + fl 0.10)) = 110 + 1 / 2 ^ 46" by code_simp
  have rr: "fl (fl 0.10 / fl 0.05) = 2" by code_simp
  have "create_buy_signal \<lparr>stop_loss_pct = fl 0.05, take_profit_pct = fl 0.10\<rparr> d 100 symb' =
      Inr \<lparr>date = d, symbol = symb', type = ''BUY'', price = 100,
           stop_loss = Some (fl (100 * fl (1 - fl 0.05))),
           take_profit = Some (fl (100 * fl (1 + fl 0.10))),
           risk_reward_ratio = Some (fl (fl 0.10 / fl 0.05)),
           reason = ''SMA 20 crossed above SMA 50''\<rparr>"
    using nz by (simp only: create_buy_signal_def Let_def SimpleSignalGenerator.simps if_False)
  then show "\<exists>s'. create_buy_signal \<lparr>stop_loss_pct = fl 0.05, take_profit_pct = fl 0.10\<rparr> d 100 symb' = Inr s' \<and>
      stop_loss s' = Some 95 \<and> take_profit s' = Some (110 + 1 / 2 ^ 46) \<and>
      risk_reward_ratio s' = Some 2"
    by (simp only: sl tp rr) simp
qed

theorem C4_witness:
  "find_crossover_signals default_generator (add_moving_averages (Some crossover_data) 20 50) ''TEST'' =
     Inr [\<lparr>date = 50, symbol = ''TEST'', type = ''BUY'', price = 200, stop_loss = Some 190,
           take_profit = Some (220 + 1 / 2 ^ 45), risk_reward_ratio = Some 2,
           reason = ''SMA 20 crossed above SMA 50''\<rparr>] \<and>
   Some (190 :: real) = Some (fl (200 * fl (1 - stop_loss_pct default_generator))) \<and>
   Some (220 + 1 / 2 ^ 45 :: real) = Some (fl (200 * fl (1 + take_profit_pct default_generator))) \<and>
   Some (2 :: real) = Some (fl (take_profit_pct default_generator / stop_loss_pct default_generator))"
proof -
  let ?s = "\<lparr>date = 50, symbol = ''TEST'', type = ''BUY'', price = 200, stop_loss = Some 190,
           take_profit = Some (220 + 1 / 2 ^ 45), risk_reward_ratio = Some 2,
           reason = ''SMA 20 crossed above SMA 50''\<rparr>"
  note e = crossover_data_signals
  have "find_crossover_signals default_generator (add_moving_averages (Some crossover_data) 20 50) ''TEST'' = Inr [?s]
        \<and> ?s \<in> set [?s] \<and> type ?s = ''BUY''"
    using e by simp
  from C4_buy_signal_risk_fields[THEN conjunct1, rule_format, OF this]
  have "stop_loss ?s = Some (fl (price ?s * fl (1 - stop_loss_pct default_generator))) \<and>
      take_profit ?s = Some (fl (price ?s * fl (1 + take_profit_pct default_generator))) \<and>
      risk_reward_ratio ?s = Some (fl (take_profit_pct default_generator / stop_loss_pct default_generator))" .
  then show ?thesis using e by simp
qed

section \<open>Recommendation for detected signals\<close>

text \<open>
  C10. For a non-empty list of signals that the detector returned, the recommendation
  is one of the four texts for a recent or old BUY or SELL signal; the final fallback
  text (UNCLEAR) is not returned, since every signal of the detector has the kind BUY or
  SELL.
\<close>

theorem C10_recommendation_of_detected_signals:
  assumes "find_crossover_signals self data symb = Inr signals" and "signals \<noteq> []"
  shows "get_current_recommendation self signals current_ma_status now \<in>
      {Inr ''RECENT BUY SIGNAL - Consider entry or monitor position'',
       Inr ''OLD BUY SIGNAL - Reassess current conditions'',
       Inr ''RECENT SELL SIGNAL - Avoid buying, consider exit'',
       Inr ''OLD SELL SIGNAL - Monitor for trend change''} \<and>
     get_current_recommendation self signals current_ma_status now \<noteq>
       Inr ''UNCLEAR - Review signals and current trend''"
proof -
  have "last signals \<in> set signals" using assms(2) by simp
  then have "made_by self symb (last signals)"
    using find_crossover_signals_made_by[OF assms(1)] by blast
  then have "type (last signals) = ''BUY'' \<or> type (last signals) = ''SELL''"
    by (rule made_by_type)
  then show ?thesis
    using assms(2) by (auto simp: get_current_recommendation_def get_latest_signal_def Let_def)
qed

theorem C10_witness:
  "find_crossover_signals default_generator (add_moving_averages (Some crossover_data) 20 50) ''TEST'' \<noteq> Inr [] \<and>
   (\<exists>signals. find_crossover_signals default_generator (add_moving_averages (Some crossover_data) 20 50) ''TEST'' = Inr signals \<and>
   get_current_recommendation default_generator signals Map.empty 52 \<in>
      {Inr ''RECENT BUY SIGNAL - Consider entry or monitor position'',
       Inr ''OLD BUY SIGNAL - Reassess current conditions'',
       Inr ''RECENT SELL SIGNAL - Avoid buying, consider exit'',
       Inr ''OLD SELL SIGNAL - Monitor for trend change''} \<and>
   get_current_recommendation default_generator signals Map.empty 52 \<noteq> Inr ''UNCLEAR - Review signals and current trend'')"
proof -
  let ?s = "\<lparr>date = 50, symbol = ''TEST'', type = ''BUY'', price = 200, stop_loss = Some 190,
           take_profit = Some (220 + 1 / 2 ^ 45), risk_reward_ratio = Some 2,
           reason = ''SMA 20 crossed above SMA 50''\<rparr>"
  note e = crossover_data_signals
  have ne: "[?s] \<noteq> []" by simp
  from C10_recommendation_of_detected_signals[OF e ne, of Map.empty 52]
  show ?thesis using e by simp
qed

section \<open>Performance of a BUY signal\<close>

text \<open>
  C3. For a BUY signal with a non-zero entry price and both risk levels, the evaluation
  returns a report whose return is \<open>(current - entry) / entry * 100\<close> and whose status
  and outcome are decided in this order: current price at or above the target gives
  TARGET HIT and WIN, else at or below the stop gives STOPPED OUT and LOSS, else ACTIVE
  and PENDING. With entry 100, stop 95 and target 110, the prices 110, 95 and 102 give
  the three outcomes in turn.
\<close>

theorem C3_performance_of_buy_signal:
  assumes "type sig = ''BUY''" and "price sig \<noteq> 0"
    and "take_profit sig = Some tp" and "stop_loss sig = Some sl"
  shows "\<exists>r. analyze_signal_performance self sig cur now = Inr (Report r) \<and>
     entry_price r = price sig \<and> current_price r = cur \<and>
     current_return_pct r = (cur - price sig) / price sig * 100 \<and>
     (status r, outcome r) =
       (if cur \<ge> tp then (''TARGET HIT'', ''WIN'')
        else if cur \<le> sl then (''STOPPED OUT'', ''LOSS'')
        else (''ACTIVE'', ''PENDING''))"
  using assms by (simp add: analyze_signal_performance_def Let_def)

theorem C3_witness:
  "type test_signal = ''BUY'' \<and> price test_signal \<noteq> 0 \<and>
   take_profit test_signal = Some 110 \<and> stop_loss test_signal = Some 95 \<and>
   (\<exists>r. analyze_signal_performance default_generator test_signal 110 5 = Inr (Report r) \<and>
        current_return_pct r = 10 \<and> status r = ''TARGET HIT'' \<and> outcome r = ''WIN'') \<and>
   (\<exists>r. analyze_signal_performance default_generator test_signal 95 5 = Inr (Report r) \<and>
        current_return_pct r = -5 \<and> status r = ''STOPPED OUT'' \<and> outcome r = ''LOSS'') \<and>
   (\<exists>r. analyze_signal_performance default_generator test_signal 102 5 = Inr (Report r) \<and>
        current_return_pct r = 2 \<and> status r = ''ACTIVE'' \<and> outcome r = ''PENDING'')"
proof -
  have h: "type test_signal = ''BUY''" "price test_signal \<noteq> 0"
    "take_profit test_signal = Some 110" "stop_loss test_signal = Some 95"
    by (simp_all add: test_signal_def)
  have p: "price test_signal = 100" by (simp add: test_signal_def)
  show ?thesis
    using h C3_performance_of_buy_signal[OF h, of default_generator 110 5]
      C3_performance_of_buy_signal[OF h, of default_generator 95 5]
      C3_performance_of_buy_signal[OF h, of default_generator 102 5]
    by (auto simp: p)
qed

text \<open>
  C7. For a signal whose kind is not BUY, the evaluation returns the error dictionary
  (the program's unsupported-kind failure) and never a performance report.
\<close>

theorem C7_no_performance_for_non_buy:
  assumes "type sig \<noteq> ''BUY''"
  shows "analyze_signal_performance self sig cur now =
           Inr (ErrorDict ''Performance analysis only for BUY signals'') \<and>
         (\<forall>r. analyze_signal_performance self sig cur now \<noteq> Inr (Report r))"
  using assms by (simp add: analyze_signal_performance_def)

theorem C7_witness:
  "type (create_sell_signal default_generator 0 100 ''TEST'') \<noteq> ''BUY'' \<and>
   analyze_signal_performance default_generator (create_sell_signal default_generator 0 100 ''TEST'') 105 5 =
     Inr (ErrorDict ''Performance analysis only for BUY signals'')"
proof -
  have h: "type (create_sell_signal default_generator 0 100 ''TEST'') \<noteq> ''BUY''"
    by (simp add: create_sell_signal_def)
  show ?thesis
    using h C7_no_performance_for_non_buy[OF h, of default_generator 105 5] by simp
qed

section \<open>Trend classification\<close>

lemma latest_get_present: "SMA df w = Some c \<Longrightarrow> latest_get df w = last c"
  by (simp add: latest_get_def)

text \<open>
  C6. On the last bar of a frame with both average columns, with \<open>p\<close> the last close,
  \<open>f\<close> the fast and \<open>s\<close> the slow average (\<open>s\<close> non-zero): \<open>p > f > s\<close> gives
  STRONG_BULLISH with strength \<open>(f - s) / s * 100\<close>; else \<open>p > f\<close> and \<open>f < s\<close> gives
  MIXED_BULLISH with \<open>(s - f) / s * 100\<close>; else \<open>p < f < s\<close> gives STRONG_BEARISH with
  \<open>(s - f) / s * 100\<close>; every other combination gives MIXED_BEARISH with
  \<open>(f - s) / s * 100\<close>. When one of the two averages is undefined, the result is
  INSUFFICIENT_DATA with strength 0.
\<close>

theorem C6_trend_classification:
  assumes "index df \<noteq> []" and "SMA df 20 = Some fast" and "SMA df 50 = Some slow"
  shows "(last fast = Some f \<and> last slow = Some s \<and> s \<noteq> 0 \<longrightarrow>
            latest_trend df = Inr
              (let p = last (Close df)
               in if p > f \<and> f > s then (''STRONG_BULLISH'', (f - s) / s * 100)
                  else if p > f \<and> f < s then (''MIXED_BULLISH'', (s - f) / s * 100)
                  else if p < f \<and> f < s then (''STRONG_BEARISH'', (s - f) / s * 100)
                  else (''MIXED_BEARISH'', (f - s) / s * 100))) \<and>
         (last fast = None \<or> last slow = None \<longrightarrow>
            latest_trend df = Inr (''INSUFFICIENT_DATA'', 0))"
  using assms
  by (auto simp: latest_trend_def latest_get_present trend_of_def strength_def Let_def
      split: option.splits)

theorem C6_witness:
  "(\<exists>df fast slow. add_moving_averages (Some crossover_data) 20 50 = Some df \<and>
      index df \<noteq> [] \<and> SMA df 20 = Some fast \<and> SMA df 50 = Some slow \<and>
      last fast = Some 105 \<and> last slow = Some 102 \<and> last (Close df) = 200 \<and>
      latest_trend df = Inr (''STRONG_BULLISH'', 50 / 17)) \<and>
   (\<exists>df fast slow. add_moving_averages (Some test_data) 20 50 = Some df \<and>
      index df \<noteq> [] \<and> SMA df 20 = Some fast \<and> SMA df 50 = Some slow \<and>
      last fast = None \<and>
      latest_trend df = Inr (''INSUFFICIENT_DATA'', 0))"
proof -
  obtain df where aug: "add_moving_averages (Some crossover_data) 20 50 = Some df"
    by (simp add: add_moving_averages_def crossover_data_def Let_def)
  note df = add_moving_averages_default[OF aug]
  let ?fast = "rolling_mean 20 (Close crossover_data)"
  let ?slow = "rolling_mean 50 (Close crossover_data)"
  have ne: "index df \<noteq> []" using df by simp
  have lf: "last ?fast = Some 105" and ls: "last ?slow = Some 102" by code_simp+
  have p: "last (Close df) = 200" using df by (simp add: crossover_data_def)
  have nz: "(102::real) \<noteq> 0" by simp
  from C6_trend_classification[OF ne df(4) df(5), of 105 102, THEN conjunct1, rule_format] lf ls nz
  have t: "latest_trend df = Inr (''STRONG_BULLISH'', 50 / 17)"
    by (simp add: p Let_def)
  obtain df' where aug': "add_moving_averages (Some test_data) 20 50 = Some df'"
    by (simp add: add_moving_averages_def test_data_def Let_def)
  note df' = add_moving_averages_default[OF aug']
  have ne': "index df' \<noteq> []" using df' by simp
  have lf': "last (rolling_mean 20 (Close test_data)) = None" by code_simp
  from C6_trend_classification[OF ne' df'(4) df'(5), THEN conjunct2, rule_format] lf'
  have t': "latest_trend df' = Inr (''INSUFFICIENT_DATA'', 0)" by simp
  show ?thesis
    using aug ne df(4,5) lf ls p t aug' ne' df'(4,5) lf' t' by blast
qed

text \<open>
  The text that the command line prints agrees with the label of the endpoint on the
  first three cases, and splits the last case in two.
\<close>

lemma analyze_trend_and_latest_trend:
  assumes "index df \<noteq> []" and "SMA df 20 = Some fast" and "SMA df 50 = Some slow"
    and "last fast = Some f" and "last slow = Some s" and "s \<noteq> 0"
  shows "(analyze_trend (Some df) = Inr (Some ''STRONG BULLISH'') \<longleftrightarrow>
            (\<exists>x. latest_trend df = Inr (''STRONG_BULLISH'', x))) \<and>
         (analyze_trend (Some df) = Inr (Some ''MIXED (Price up, but trend weakening)'') \<longleftrightarrow>
            (\<exists>x. latest_trend df = Inr (''MIXED_BULLISH'', x))) \<and>
         (analyze_trend (Some df) = Inr (Some ''STRONG BEARISH'') \<longleftrightarrow>
            (\<exists>x. latest_trend df = Inr (''STRONG_BEARISH'', x))) \<and>
         (analyze_trend (Some df) = Inr (Some ''MIXED (Price down, but trend strengthening)'') \<or>
          analyze_trend (Some df) = Inr (Some ''NEUTRAL'') \<longleftrightarrow>
            (\<exists>x. latest_trend df = Inr (''MIXED_BEARISH'', x)))"
  using assms
  by (simp add: analyze_trend_def latest_trend_def latest_get_def trend_of_def strength_def Let_def)

section \<open>Recommendation without signals\<close>

text \<open>
  With the status dictionary that the command line builds (both keys present, NaN for
  an undefined average), an empty signal list gives WATCH FOR PULLBACK when both
  averages are defined and the fast one is above the slow one, and STAY AWAY otherwise.
\<close>

lemma recommendation_without_signals:
  "get_current_recommendation self [] (ma_status sma_20 sma_50) now =
     Inr (if (\<exists>f s. sma_20 = Some f \<and> sma_50 = Some s \<and> f > s)
          then ''WATCH FOR PULLBACK - Currently bullish, wait for better entry''
          else ''STAY AWAY - Currently bearish trend'')"
  by (cases sma_20; cases sma_50)
     (simp_all add: get_current_recommendation_def get_latest_signal_def dict_get_def
        ma_status_def float_of_def)

text \<open>
  C8. The claim asks for STAY AWAY, and no error, when the trend inputs are undefined.
  For a status dictionary without the two keys, \<open>dict.get\<close> yields \<open>None\<close> for the fast
  average and the comparison of \<open>None\<close> with \<open>0\<close> raises \<open>TypeError\<close>.
\<close>

theorem C8_missing_trend_inputs_raise:
  "get_current_recommendation self [] Map.empty now = Inl TypeError"
  by (simp add: get_current_recommendation_def get_latest_signal_def dict_get_def)

section \<open>The clock\<close>

text \<open>
  C9, as the claim states it, fails: the evaluation takes no reference date, it reads
  the clock. A clock reading before the date of the signal gives a negative
  \<open>days_holding\<close> and no failure, and the same explicit arguments give different
  results at different clock readings.
\<close>

theorem C9_counterexample:
  "analyze_signal_performance default_generator test_signal 102 (-3) =
     Inr (Report \<lparr>status = ''ACTIVE'', outcome = ''PENDING'', entry_price = 100,
                   current_price = 102, current_return_pct = 2,
                   report_stop_loss = Some 95, report_take_profit = Some 110,
                   days_holding = -3, report_risk_reward_ratio = Some 2\<rparr>) \<and>
   analyze_signal_performance default_generator test_signal 102 1 \<noteq>
     analyze_signal_performance default_generator test_signal 102 2 \<and>
   get_current_recommendation default_generator [test_signal] Map.empty 5 \<noteq>
     get_current_recommendation default_generator [test_signal] Map.empty 6"
  by (simp add: analyze_signal_performance_def get_current_recommendation_def
      get_latest_signal_def test_signal_def Let_def)

text \<open>
  C9, amended. Evaluation and recommendation are functions of their arguments and of
  the date the clock shows: \<open>days_holding\<close> is the clock date minus the date of the
  signal in whole days (negative when the clock is behind), and the recommendation for
  a non-empty signal list depends only on the kind of the last signal and on whether
  that difference is at most 5.
\<close>

theorem C9_clock_dependent_evaluation:
  "(type sig = ''BUY'' \<and> price sig \<noteq> 0 \<and> take_profit sig = Some tp \<and> stop_loss sig = Some sl \<longrightarrow>
      (\<exists>r. analyze_signal_performance self sig cur now = Inr (Report r) \<and>
           days_holding r = now - date sig)) \<and>
   (signals \<noteq> [] \<longrightarrow>
      get_current_recommendation self signals current_ma_status now =
        Inr (if type (last signals) = ''BUY'' then
               (if now - date (last signals) \<le> 5
                then ''RECENT BUY SIGNAL - Consider entry or monitor position''
                else ''OLD BUY SIGNAL - Reassess current conditions'')
             else if type (last signals) = ''SELL'' then
               (if now - date (last signals) \<le> 5
                then ''RECENT SELL SIGNAL - Avoid buying, consider exit''
                else ''OLD SELL SIGNAL - Monitor for trend change'')
             else ''UNCLEAR - Review signals and current trend''))"
  by (simp add: analyze_signal_performance_def get_current_recommendation_def
      get_latest_signal_def Let_def)

theorem C9_witness:
  "type test_signal = ''BUY'' \<and> price test_signal \<noteq> 0 \<and>
   take_profit test_signal = Some 110 \<and> stop_loss test_signal = Some 95 \<and>
   [test_signal] \<noteq> [] \<and>
   (\<exists>r. analyze_signal_performance default_generator test_signal 102 (-3) = Inr (Report r) \<and>
        days_holding r = -3) \<and>
   get_current_recommendation default_generator [test_signal] Map.empty 5 =
     Inr ''RECENT BUY SIGNAL - Consider entry or monitor position'' \<and>
   get_current_recommendation default_generator [test_signal] Map.empty 6 =
     Inr ''OLD BUY SIGNAL - Reassess current conditions''"
proof -
  have h: "type test_signal = ''BUY'' \<and> price test_signal \<noteq> 0 \<and>
     take_profit test_signal = Some 110 \<and> stop_loss test_signal = Some 95"
    by (simp add: test_signal_def)
  have d: "date test_signal = 0" by (simp add: test_signal_def)
  have ne: "[test_signal] \<noteq> []" by simp
  note a = C9_clock_dependent_evaluation[THEN conjunct1, rule_format, OF h, of default_generator 102 "-3"]
  note b = C9_clock_dependent_evaluation[THEN conjunct2, rule_format, OF ne, of default_generator Map.empty]
  show ?thesis
    using h a b[of 5] b[of 6] by (simp add: d)
qed

section \<open>Short and undefined series\<close>

text \<open>
  C5, as the claim states it, fails for a series of exactly 50 bars: it is shorter than
  51 bars and yields no signal, but both averages of its last bar are defined and the
  trend is classified.
\<close>

theorem C5_counterexample:
  "length (index fifty_bars) < 50 + 1 \<and>
   analyze_stock (Some fifty_bars) ''TEST'' = Inr ([], ''MIXED_BEARISH'', 0)"
  by code_simp

lemma for_loop_skip:
  assumes "\<And>j acc. j \<in> set js \<Longrightarrow> body j acc = Inr acc"
  shows "for_loop body js acc = Inr acc"
  using assms by (induction js arbitrary: acc) simp_all

lemma crossover_body_skip:
  "fast ! i = None \<or> slow ! i = None \<Longrightarrow> crossover_body self df fast slow symb i acc = Inr acc"
  by (auto simp: crossover_body_def Let_def split: option.splits)

lemma all_undefined_nth:
  "set col \<subseteq> {None} \<Longrightarrow> i < length col \<Longrightarrow> col ! i = None"
  by (metis nth_mem singletonD subsetD)

lemma find_crossover_signals_undefined:
  assumes "wf_frame df" and "SMA df 20 = Some fast" and "SMA df 50 = Some slow"
    and "set fast \<subseteq> {None} \<or> set slow \<subseteq> {None}"
  shows "find_crossover_signals self (Some df) symb = Inr []"
proof -
  have lens: "length fast = length (index df)" "length slow = length (index df)"
    using assms(1-3) by (simp_all add: wf_frame_def)
  have "crossover_body self df fast slow symb j acc = Inr acc"
    if "j \<in> set [1..<length (index df)]" for j acc
  proof -
    have "j < length fast" "j < length slow" using that lens by simp_all
    then have "fast ! j = None \<or> slow ! j = None"
      using assms(4) all_undefined_nth[of fast j] all_undefined_nth[of slow j] by auto
    then show ?thesis by (rule crossover_body_skip)
  qed
  then have "for_loop (crossover_body self df fast slow symb) [1..<length (index df)] [] = Inr []"
    by (rule for_loop_skip)
  then show ?thesis
    using assms(2,3) by (simp add: find_crossover_signals_def)
qed

lemma latest_trend_undefined:
  assumes "wf_frame df" and "SMA df 20 = Some fast" and "SMA df 50 = Some slow"
    and "set fast \<subseteq> {None} \<or> set slow \<subseteq> {None}" and "index df \<noteq> []"
  shows "latest_trend df = Inr (''INSUFFICIENT_DATA'', 0)"
proof -
  have "fast \<noteq> []" "slow \<noteq> []"
    using assms(1-3,5) by (auto simp: wf_frame_def)
  then have "last fast \<in> set fast" "last slow \<in> set slow" by simp_all
  then have "last fast = None \<or> last slow = None"
    using assms(4) by (metis singletonD subsetD)
  then show ?thesis
    using assms(2,3,5)
    by (auto simp: latest_trend_def latest_get_present trend_of_def split: option.splits)
qed

lemma analyze_stock_short:
  assumes "index d \<noteq> []" and "length (Close d) = length (index d)" and "length (index d) < 50"
  shows "analyze_stock (Some d) symb = Inr ([], ''INSUFFICIENT_DATA'', 0)"
proof -
  obtain df where aug: "add_moving_averages (Some d) 20 50 = Some df"
    using assms(1) by (simp add: add_moving_averages_def Let_def)
  note df = add_moving_averages_default[OF aug]
  have sig: "find_crossover_signals default_generator (Some df) symb = Inr []"
    using assms(3) df by (simp add: find_crossover_signals_def)
  let ?slow = "rolling_mean 50 (Close d)"
  have n: "Close d \<noteq> []" using assms(1,2) by auto
  then have "?slow \<noteq> []" using length_rolling_mean[of 50 "Close d"] by auto
  then have "last ?slow = ?slow ! (length (Close d) - 1)"
    by (simp add: last_conv_nth length_rolling_mean)
  moreover have i: "length (Close d) - 1 < length (Close d)" using n by simp
  have "?slow ! (length (Close d) - 1) = None"
    using rolling_mean_nth[OF i, of 50] assms(2,3) by simp
  ultimately have "last ?slow = None" by simp
  then have "latest_trend df = Inr (''INSUFFICIENT_DATA'', 0)"
    using df by (simp add: latest_trend_def latest_get_def trend_of_def split: option.splits)
  then show ?thesis
    using aug sig by (simp add: analyze_stock_def)
qed

text \<open>
  C5, amended. Detection returns the empty list, and raises nothing, for missing data,
  for a frame of fewer than 51 bars, for a frame without one of the two average
  columns, and for a frame in which one of them is entirely undefined. The trend label
  is INSUFFICIENT_DATA for a frame with an entirely undefined average column, and the
  endpoint reports no signal and INSUFFICIENT_DATA for every series of fewer than 50
  bars.
\<close>

theorem C5_short_or_undefined_series:
  "find_crossover_signals self None symb = Inr [] \<and>
   (length (index df) < 51 \<or> SMA df 20 = None \<or> SMA df 50 = None \<longrightarrow>
      find_crossover_signals self (Some df) symb = Inr []) \<and>
   (wf_frame df \<and> SMA df 20 = Some fast \<and> SMA df 50 = Some slow \<and>
    (set fast \<subseteq> {None} \<or> set slow \<subseteq> {None}) \<longrightarrow>
      find_crossover_signals self (Some df) symb = Inr [] \<and>
      (index df \<noteq> [] \<longrightarrow> latest_trend df = Inr (''INSUFFICIENT_DATA'', 0))) \<and>
   (index d \<noteq> [] \<and> length (Close d) = length (index d) \<and> length (index d) < 50 \<longrightarrow>
      analyze_stock (Some d) symb = Inr ([], ''INSUFFICIENT_DATA'', 0))"
proof (intro conjI impI)
  show "find_crossover_signals self None symb = Inr []"
    by (simp add: find_crossover_signals_def)
  show "find_crossover_signals self (Some df) symb = Inr []"
    if "length (index df) < 51 \<or> SMA df 20 = None \<or> SMA df 50 = None"
    using that by (auto simp: find_crossover_signals_def split: option.splits)
  show "find_crossover_signals self (Some df) symb = Inr []"
    if "wf_frame df \<and> SMA df 20 = Some fast \<and> SMA df 50 = Some slow \<and>
        (set fast \<subseteq> {None} \<or> set slow \<subseteq> {None})"
    using that find_crossover_signals_undefined by blast
  show "latest_trend df = Inr (''INSUFFICIENT_DATA'', 0)"
    if "wf_frame df \<and> SMA df 20 = Some fast \<and> SMA df 50 = Some slow \<and>
        (set fast \<subseteq> {None} \<or> set slow \<subseteq> {None})" and "index df \<noteq> []"
    using that latest_trend_undefined by blast
  show "analyze_stock (Some d) symb = Inr ([], ''INSUFFICIENT_DATA'', 0)"
    if "index d \<noteq> [] \<and> length (Close d) = length (index d) \<and> length (index d) < 50"
    using that analyze_stock_short by blast
qed

theorem C5_witness:
  "length (index small_data) < 51 \<and>
   find_crossover_signals default_generator (Some small_data) ''TEST'' = Inr [] \<and>
   wf_frame undefined_frame \<and>
   SMA undefined_frame 20 = Some (replicate 51 None) \<and>
   SMA undefined_frame 50 = Some (replicate 51 None) \<and>
   set (replicate 51 (None :: real option)) \<subseteq> {None} \<and>
   index undefined_frame \<noteq> [] \<and>
   find_crossover_signals default_generator (Some undefined_frame) ''TEST'' = Inr [] \<and>
   latest_trend undefined_frame = Inr (''INSUFFICIENT_DATA'', 0) \<and>
   index test_data \<noteq> [] \<and> length (Close test_data) = length (index test_data) \<and>
   length (index test_data) < 50 \<and>
   analyze_stock (Some test_data) ''TEST'' = Inr ([], ''INSUFFICIENT_DATA'', 0)"
proof -
  note t = C5_short_or_undefined_series
  have a: "length (index small_data) < 51" by (simp add: small_data_def)
  then have a': "length (index small_data) < 51 \<or> SMA small_data 20 = None \<or> SMA small_data 50 = None"
    by simp
  have b: "wf_frame undefined_frame \<and> SMA undefined_frame 20 = Some (replicate 51 None) \<and>
      SMA undefined_frame 50 = Some (replicate 51 None) \<and>
      (set (replicate 51 (None :: real option)) \<subseteq> {None} \<or> set (replicate 51 (None :: real option)) \<subseteq> {None})"
    by (simp add: undefined_frame_def wf_frame_def)
  have b': "index undefined_frame \<noteq> []" by (simp add: undefined_frame_def)
  have c: "index test_data \<noteq> [] \<and> length (Close test_data) = length (index test_data) \<and>
      length (index test_data) < 50"
    by (simp add: test_data_def)
  note r2 = t[THEN conjunct2, THEN conjunct1, rule_format, OF a', of default_generator "''TEST''"]
  note r3 = t[THEN conjunct2, THEN conjunct2, THEN conjunct1, rule_format, OF b, of default_generator "''TEST''"]
  note r4 = t[THEN conjunct2, THEN conjunct2, THEN conjunct2, rule_format, OF c, of "''TEST''"]
  have r3a: "find_crossover_signals default_generator (Some undefined_frame) ''TEST'' = Inr []"
    using r3 by simp
  have r3b: "latest_trend undefined_frame = Inr (''INSUFFICIENT_DATA'', 0)"
    using r3 b' by simp
  show ?thesis
    using a r2 b b' r3a r3b c r4 by simp
qed

end
